theory Spec2Isabelle
  imports Complex_Main
begin

section \<open>Python values used by locustfile.py\<close>

text \<open>
  Exceptions the modelled code can raise. A raise is the \<open>Inl\<close> branch of a sum.
\<close>

datatype error = ZeroDivisionError | AttributeError | IndexError

text \<open>
  The run time handed out by the harness is a Python float. It is idealised here as a
  real number: every float is one, and the comparisons and the floor division of the
  source are exact on the values considered. The class attributes are Python ints.

  \<open>int(x)\<close> on a float truncates toward zero.
\<close>

definition int_of_float :: "real \<Rightarrow> int" where
  "int_of_float x = (if 0 \<le> x then \<lfloor>x\<rfloor> else \<lceil>x\<rceil>)"

text \<open>\<open>x // d\<close> for a float \<open>x\<close> and an int \<open>d\<close>: the floor of the quotient, as a float.\<close>

definition floor_div :: "real \<Rightarrow> int \<Rightarrow> error + real" where
  "floor_div x d =
     (if d = 0 then Inl ZeroDivisionError else Inr (of_int \<lfloor>x / of_int d\<rfloor>))"

text \<open>\<open>str(n)\<close> for an int, as the f-strings of the source render it.\<close>

definition digit_char :: "nat \<Rightarrow> char" where
  "digit_char d = ''0123456789'' ! d"

fun str_nat :: "nat \<Rightarrow> string" where
  "str_nat n =
     (if n < 10 then [digit_char n] else str_nat (n div 10) @ [digit_char (n mod 10)])"

declare str_nat.simps [simp del]

definition str_int :: "int \<Rightarrow> string" where
  "str_int i = (if i < 0 then CHR ''-'' # str_nat (nat (- i)) else str_nat (nat i))"

text \<open>
  \<open>random.choice(seq)\<close> returns \<open>seq[i]\<close> for the index \<open>i\<close> that the generator draws
  from \<open>range(len(seq))\<close>. The drawn index is a parameter of the model; an index outside
  the sequence is the \<open>IndexError\<close> of the subscript.
\<close>

definition choice :: "'a list \<Rightarrow> nat \<Rightarrow> error + 'a" where
  "choice seq i = (if i < length seq then Inr (seq ! i) else Inl IndexError)"

text \<open>
  The generator draws the index uniformly: the probability of an event over the drawn
  index is the fraction of the indices of \<open>range(n)\<close> in it.
\<close>

definition prob :: "nat \<Rightarrow> (nat \<Rightarrow> bool) \<Rightarrow> real" where
  "prob n ev = real (length (filter ev [0..<n])) / real n"


section \<open>BasicUser: the requests of the tasks\<close>

record request =
  http_method :: string
  path :: string
  name :: string
  timeout :: int

text \<open>\<open>self.client.get(path, name=..., timeout=...)\<close>: the request that is issued.\<close>

definition client_get :: "string \<Rightarrow> string \<Rightarrow> int \<Rightarrow> request" where
  "client_get p n t = \<lparr>http_method = ''GET'', path = p, name = n, timeout = t\<rparr>"

definition delayed :: "nat \<Rightarrow> error + request" where
  "delayed rnd =
     (case choice [1, 2, 3] rnd of
        Inl e \<Rightarrow> Inl e
      | Inr delay \<Rightarrow>
          Inr (client_get (''/delay/'' @ str_int delay) (''GET /delay/'' @ str_int delay) 60))"

definition status_check :: "nat \<Rightarrow> error + request" where
  "status_check rnd =
     (case choice [200, 200, 200, 404, 500] rnd of
        Inl e \<Rightarrow> Inl e
      | Inr code \<Rightarrow>
          Inr (client_get (''/status/'' @ str_int code) (''GET /status/'' @ str_int code) 30))"


section \<open>StepLoadShape\<close>

record StepLoadShape =
  step_duration :: int
  step_users :: int
  max_steps :: int
  hold_steps :: int

text \<open>The class attributes as the source sets them.\<close>

definition default_shape :: StepLoadShape where
  "default_shape = \<lparr>step_duration = 60, step_users = 20, max_steps = 6, hold_steps = 2\<rparr>"

text \<open>
  \<open>tick\<close>, with the value of \<open>self.get_run_time()\<close> as its second argument. \<open>Inr None\<close>
  is the \<open>None\<close> that stops the test, \<open>Inr (Some (target_users, spawn_rate))\<close> the tuple.
\<close>

definition tick :: "StepLoadShape \<Rightarrow> real \<Rightarrow> error + (int \<times> int) option" where
  "tick self run_time =
     (let total_ramp_time = step_duration self * max_steps self in
      if run_time > of_int (total_ramp_time + hold_steps self * step_duration self)
      then Inr None
      else if run_time \<le> of_int total_ramp_time then
        (case floor_div run_time (step_duration self) of
           Inl e \<Rightarrow> Inl e
         | Inr q \<Rightarrow>
             (let current_step = int_of_float q + 1;
                  target_users = current_step * step_users self;
                  spawn_rate = max 1 (int_of_float (of_int (step_users self) / 5))
              in Inr (Some (target_users, spawn_rate))))
      else
        (let target_users = max_steps self * step_users self;
             spawn_rate = max 1 (int_of_float (of_int (step_users self) / 5))
         in Inr (Some (target_users, spawn_rate))))"




section \<open>The test_stop listener\<close>

record StatsEntry =
  num_requests :: int
  num_failures :: int
  avg_response_time :: real

record RequestStats =
  total :: StatsEntry

record Runner =
  stats :: RequestStats

record Environment =
  runner :: "Runner option"

text \<open>Attribute access \<open>obj.stats\<close>: on \<open>None\<close> it raises \<open>AttributeError\<close>.\<close>

definition getattr_stats :: "Runner option \<Rightarrow> error + RequestStats" where
  "getattr_stats obj = (case obj of None \<Rightarrow> Inl AttributeError | Some r \<Rightarrow> Inr (stats r))"

text \<open>Truth value of \<open>environment.runner\<close>: \<open>None\<close> is false, a runner object is true.\<close>

definition truthy :: "Runner option \<Rightarrow> bool" where
  "truthy obj = (obj \<noteq> None)"

text \<open>
  \<open>on_test_stop\<close> returns the lines printed so far and either the exception that ended
  the call or \<open>()\<close>. The rendering of the float \<open>avg_response_time\<close> is the
  interpreter's and is a parameter.
\<close>

definition on_test_stop ::
  "(real \<Rightarrow> string) \<Rightarrow> Environment \<Rightarrow> string list \<times> (error + unit)" where
  "on_test_stop str_float environment =
     (let out = [''Test finished. Summary:''] in
      case getattr_stats (runner environment) of
        Inl e \<Rightarrow> (out, Inl e)
      | Inr stats' \<Rightarrow>
          if truthy (runner environment) then
            (out @
               [''  Total requests: '' @ str_int (num_requests (total stats')),
                ''  Failures: '' @ str_int (num_failures (total stats')),
                ''  Avg response time (ms): '' @ str_float (avg_response_time (total stats'))],
             Inr ())
          else (out, Inr ()))"


section \<open>Arithmetic of the helpers\<close>

lemma int_of_float_of_int: "int_of_float (of_int k) = k"
  by (simp add: int_of_float_def)

lemma floor_fifth: "\<lfloor>real_of_int n / 5\<rfloor> = n div 5"
  using floor_divide_of_int_eq [of n 5, where ?'a = real] by simp

text \<open>
  Truncation and floor differ on negative quotients only, where \<open>max 1\<close> hides both.
\<close>

lemma spawn_rate_div: "max 1 (int_of_float (real_of_int n / 5)) = max 1 (n div 5)"
proof (cases "0 \<le> n")
  case True
  then show ?thesis by (simp add: int_of_float_def floor_fifth)
next
  case False
  then have neg: "n < 0" by simp
  then have "real_of_int n / 5 \<le> 0" by simp
  then have "\<lceil>real_of_int n / 5\<rceil> \<le> 0" by (simp add: ceiling_le_iff)
  moreover from neg have "n div 5 < 0" by simp
  ultimately show ?thesis using neg by (simp add: int_of_float_def max_def)
qed

lemma upt_5: "[0..<5] = [0, 1, 2, 3, 4]"
  by code_simp

lemma below_5: "rnd < 5 \<Longrightarrow> rnd = 0 \<or> rnd = Suc 0 \<or> rnd = 2 \<or> rnd = 3 \<or> rnd = (4::nat)"
  by arith

lemma below_3: "rnd < 3 \<Longrightarrow> rnd = 0 \<or> rnd = Suc 0 \<or> rnd = (2::nat)"
  by arith


section \<open>The three branches of tick\<close>

lemma tick_terminate:
  assumes "real_of_int (step_duration self * max_steps self
             + hold_steps self * step_duration self) < e"
  shows "tick self e = Inr None"
  using assms by (simp add: tick_def Let_def)

lemma tick_hold:
  assumes "e \<le> real_of_int (step_duration self * max_steps self
             + hold_steps self * step_duration self)"
    and "real_of_int (step_duration self * max_steps self) < e"
  shows "tick self e =
    Inr (Some (max_steps self * step_users self, max 1 (step_users self div 5)))"
  using assms by (simp add: tick_def Let_def spawn_rate_div del: of_int_add of_int_mult)

lemma tick_ramp:
  assumes "e \<le> real_of_int (step_duration self * max_steps self
             + hold_steps self * step_duration self)"
    and "e \<le> real_of_int (step_duration self * max_steps self)"
    and "step_duration self \<noteq> 0"
  shows "tick self e =
    Inr (Some ((\<lfloor>e / real_of_int (step_duration self)\<rfloor> + 1) * step_users self,
               max 1 (step_users self div 5)))"
  using assms
  by (simp add: tick_def Let_def floor_div_def spawn_rate_div int_of_float_of_int
           del: of_int_add of_int_mult)

lemma tick_ramp_error:
  assumes "e \<le> real_of_int (step_duration self * max_steps self
             + hold_steps self * step_duration self)"
    and "e \<le> real_of_int (step_duration self * max_steps self)"
    and "step_duration self = 0"
  shows "tick self e = Inl ZeroDivisionError"
  using assms by (simp add: tick_def Let_def floor_div_def)

lemma tick_None_iff:
  "(tick self e = Inr None) =
   (real_of_int (step_duration self * max_steps self
      + hold_steps self * step_duration self) < e)"
  by (simp add: tick_def Let_def floor_div_def del: of_int_add of_int_mult)

text \<open>The default shape: ramp up to 360 s inclusive, hold up to 480 s inclusive.\<close>

lemma default_ramp:
  assumes "e \<le> 360"
  shows "tick default_shape e = Inr (Some ((\<lfloor>e / 60\<rfloor> + 1) * 20, 4))"
  using assms tick_ramp [of e default_shape] by (simp add: default_shape_def)

lemma default_hold:
  assumes "360 < e" and "e \<le> 480"
  shows "tick default_shape e = Inr (Some (120, 4))"
  using assms tick_hold [of e default_shape] by (simp add: default_shape_def)

lemma default_stop:
  assumes "480 < e"
  shows "tick default_shape e = Inr None"
  using assms tick_terminate [of default_shape e] by (simp add: default_shape_def)


text \<open>
  With no users per step the target is zero wherever \<open>tick\<close> returns a pair, and no
  exception is raised as long as the step duration is not zero.
\<close>

lemma tick_zero_step_users:
  assumes "step_users self = 0" and "step_duration self \<noteq> 0"
  shows "tick self e = Inr None \<or> tick self e = Inr (Some (0, 1))"
  using assms by (simp add: tick_def Let_def floor_div_def int_of_float_def)

text \<open>With no ramp steps the target is zero at every later time of the hold phase.\<close>

lemma tick_zero_max_steps:
  assumes "max_steps self = 0" and "0 < e"
  shows "tick self e = Inr None
       \<or> tick self e = Inr (Some (0, max 1 (step_users self div 5)))"
  using assms by (simp add: tick_def Let_def spawn_rate_div)


section \<open>The rendered paths\<close>

lemma str_int_delays:
  "str_int 1 = ''1''" "str_int 2 = ''2''" "str_int 3 = ''3''"
  by (simp_all add: str_int_def str_nat.simps digit_char_def)

lemma str_int_codes:
  "str_int 200 = ''200''" "str_int 404 = ''404''" "str_int 500 = ''500''"
  by (simp_all add: str_int_def str_nat.simps digit_char_def)

lemma delayed_values:
  "delayed 0 = Inr (client_get ''/delay/1'' ''GET /delay/1'' 60)"
  "delayed (Suc 0) = Inr (client_get ''/delay/2'' ''GET /delay/2'' 60)"
  "delayed 2 = Inr (client_get ''/delay/3'' ''GET /delay/3'' 60)"
  by (simp_all add: delayed_def choice_def str_int_delays)

lemma delayed_out_of_range: "3 \<le> rnd \<Longrightarrow> delayed rnd = Inl IndexError"
  by (simp add: delayed_def choice_def)

lemma status_check_values:
  "status_check 0 = Inr (client_get ''/status/200'' ''GET /status/200'' 30)"
  "status_check (Suc 0) = Inr (client_get ''/status/200'' ''GET /status/200'' 30)"
  "status_check 2 = Inr (client_get ''/status/200'' ''GET /status/200'' 30)"
  "status_check 3 = Inr (client_get ''/status/404'' ''GET /status/404'' 30)"
  "status_check 4 = Inr (client_get ''/status/500'' ''GET /status/500'' 30)"
  by (simp_all add: status_check_def choice_def str_int_codes)

lemma status_check_out_of_range: "5 \<le> rnd \<Longrightarrow> status_check rnd = Inl IndexError"
  by (simp add: status_check_def choice_def)


section \<open>The load shape: ramp, hold, stop\<close>

text \<open>
  C1. The claim holds the target at \<open>(120, 4)\<close> from elapsed time 360 on. At exactly
  360 s the comparison \<open>run_time <= total_ramp_time\<close> still selects the ramp branch,
  which computes step 7 of 6: the default shape returns \<open>(140, 4)\<close>, above the peak of
  120 users that the docstring of the class and the hold branch name.
\<close>

theorem tick_default_360:
  "tick default_shape 360 = Inr (Some (140, 4))
   \<and> tick default_shape 360 \<noteq> Inr (Some (120, 4))"
  by (simp add: default_ramp)

text \<open>
  C2, as stated: \<open>tick(480)\<close> is the termination signal. It is not: the stop test is
  the strict \<open>run_time > 480\<close>, so 480 s is the last instant of the hold phase.
\<close>

theorem tick_default_480_not_stopped: "tick default_shape 480 \<noteq> Inr None"
  by (simp add: default_hold)

text \<open>
  C2, amended: for any shape, \<open>tick\<close> returns the termination signal exactly at the
  elapsed times strictly greater than
  \<open>step_duration * max_steps + hold_steps * step_duration\<close>. With the default
  parameters that is every time after 480 s, and \<open>tick(480)\<close> is still \<open>(120, 4)\<close>.
\<close>

theorem tick_stops_after_hold:
  "(tick self e = Inr None) =
     (real_of_int (step_duration self * max_steps self
        + hold_steps self * step_duration self) < e)
   \<and> (tick default_shape e = Inr None) = (480 < e)
   \<and> tick default_shape 480 = Inr (Some (120, 4))"
proof -
  have "(tick default_shape e = Inr None) = (480 < e)"
    by (simp add: tick_None_iff default_shape_def)
  then show ?thesis by (simp add: tick_None_iff default_hold)
qed

theorem tick_stops_after_hold_witness:
  "tick default_shape 481 = Inr None \<and> tick default_shape 480 = Inr (Some (120, 4))"
  using tick_stops_after_hold [of default_shape 481] by simp

text \<open>
  C4. With step duration 60, 20 users per step and 6 steps, and any non-negative number
  of hold steps, the ramp is the staircase \<open>(floor(elapsed / 60) + 1) * 20\<close> with spawn
  rate 4 at every elapsed time up to 360 s; in particular \<open>tick(0) = (20, 4)\<close>,
  \<open>tick(59) = (20, 4)\<close>, \<open>tick(60) = (40, 4)\<close> and \<open>tick(359) = (120, 4)\<close>.
\<close>

theorem tick_ramp_staircase:
  assumes "0 \<le> h"
  shows
    "tick \<lparr>step_duration = 60, step_users = 20, max_steps = 6, hold_steps = h\<rparr> 0
       = Inr (Some (20, 4))
     \<and> tick \<lparr>step_duration = 60, step_users = 20, max_steps = 6, hold_steps = h\<rparr> 59
       = Inr (Some (20, 4))
     \<and> tick \<lparr>step_duration = 60, step_users = 20, max_steps = 6, hold_steps = h\<rparr> 60
       = Inr (Some (40, 4))
     \<and> tick \<lparr>step_duration = 60, step_users = 20, max_steps = 6, hold_steps = h\<rparr> 359
       = Inr (Some (120, 4))
     \<and> (\<forall>e\<le>360.
          tick \<lparr>step_duration = 60, step_users = 20, max_steps = 6, hold_steps = h\<rparr> e
            = Inr (Some ((\<lfloor>e / 60\<rfloor> + 1) * 20, 4)))"
proof -
  let ?s = "\<lparr>step_duration = 60, step_users = 20, max_steps = 6, hold_steps = h\<rparr>"
  have stair: "tick ?s e = Inr (Some ((\<lfloor>e / 60\<rfloor> + 1) * 20, 4))" if "e \<le> 360" for e
    using that assms tick_ramp [of e ?s] by simp
  have "tick ?s 0 = Inr (Some (20, 4))" using stair [of 0] by simp
  moreover have "tick ?s 59 = Inr (Some (20, 4))" using stair [of 59] by simp
  moreover have "tick ?s 60 = Inr (Some (40, 4))" using stair [of 60] by simp
  moreover have "tick ?s 359 = Inr (Some (120, 4))" using stair [of 359] by simp
  ultimately show ?thesis using stair by blast
qed

theorem tick_ramp_staircase_witness:
  "(0::int) \<le> 2
   \<and> tick \<lparr>step_duration = 60, step_users = 20, max_steps = 6, hold_steps = 2\<rparr> 0
       = Inr (Some (20, 4))
   \<and> tick \<lparr>step_duration = 60, step_users = 20, max_steps = 6, hold_steps = 2\<rparr> 59
       = Inr (Some (20, 4))
   \<and> tick \<lparr>step_duration = 60, step_users = 20, max_steps = 6, hold_steps = 2\<rparr> 60
       = Inr (Some (40, 4))
   \<and> tick \<lparr>step_duration = 60, step_users = 20, max_steps = 6, hold_steps = 2\<rparr> 359
       = Inr (Some (120, 4))
   \<and> (125::real) \<le> 360
   \<and> tick \<lparr>step_duration = 60, step_users = 20, max_steps = 6, hold_steps = 2\<rparr> 125
       = Inr (Some (60, 4))"
proof -
  let ?s = "\<lparr>step_duration = 60, step_users = 20, max_steps = 6, hold_steps = 2\<rparr>"
  have h: "(0::int) \<le> 2" by simp
  have le: "(125::real) \<le> 360" by simp
  note stairs = tick_ramp_staircase [OF h]
  have t0: "tick ?s 0 = Inr (Some (20, 4))"
    using stairs by (rule conjunct1)
  have t59: "tick ?s 59 = Inr (Some (20, 4))"
    using stairs by (rule conjunct1 [OF conjunct2])
  have t60: "tick ?s 60 = Inr (Some (40, 4))"
    using stairs by (rule conjunct1 [OF conjunct2 [OF conjunct2]])
  have t359: "tick ?s 359 = Inr (Some (120, 4))"
    using stairs by (rule conjunct1 [OF conjunct2 [OF conjunct2 [OF conjunct2]]])
  have every: "\<forall>e\<le>360. tick ?s e = Inr (Some ((\<lfloor>e / 60\<rfloor> + 1) * 20, 4))"
    using stairs by (rule conjunct2 [OF conjunct2 [OF conjunct2 [OF conjunct2]]])
  have "\<lfloor>(125::real) / 60\<rfloor> = 2" by simp
  with every [rule_format, OF le] have t125: "tick ?s 125 = Inr (Some (60, 4))"
    by simp
  show ?thesis
    by (intro conjI) (fact h t0 t59 t60 t359 le t125)+
qed

text \<open>
  C5. The claim promises a target of zero users wherever \<open>tick\<close> returns a pair when
  \<open>max_steps\<close> is 0. At elapsed time 0 the ramp branch is taken (\<open>0 <= 0\<close>) and
  returns step 1, that is \<open>step_users\<close> users: the boundary slip of C1 again.
\<close>

theorem tick_zero_max_steps_at_start:
  "tick \<lparr>step_duration = 60, step_users = 20, max_steps = 0, hold_steps = 2\<rparr> 0
     = Inr (Some (20, 4))"
  using tick_ramp [of 0 "\<lparr>step_duration = 60, step_users = 20, max_steps = 0, hold_steps = 2\<rparr>"]
  by simp







section \<open>The tasks that draw a parameter\<close>

text \<open>
  C8. The status check draws from five candidates, of which three give status 200, one
  404 and one 500: under the uniform draw of the index the three codes have probability
  3/5, 1/5 and 1/5, every drawn index gives one of the three, and there is no sixth
  candidate.
\<close>

theorem status_check_distribution:
  "(\<forall>rnd<5. \<exists>code\<in>{200, 404, 500}.
       status_check rnd
         = Inr (client_get (''/status/'' @ str_int code) (''GET /status/'' @ str_int code) 30))
   \<and> (status_check rnd = Inl IndexError) = (5 \<le> rnd)
   \<and> prob 5 (\<lambda>i. status_check i = Inr (client_get ''/status/200'' ''GET /status/200'' 30))
       = 3 / 5
   \<and> prob 5 (\<lambda>i. status_check i = Inr (client_get ''/status/404'' ''GET /status/404'' 30))
       = 1 / 5
   \<and> prob 5 (\<lambda>i. status_check i = Inr (client_get ''/status/500'' ''GET /status/500'' 30))
       = 1 / 5"
proof -
  have codes: "\<exists>code\<in>{200, 404, 500}.
       status_check i
         = Inr (client_get (''/status/'' @ str_int code) (''GET /status/'' @ str_int code) 30)"
    if "i < 5" for i
    using below_5 [OF that] by (auto simp add: status_check_values str_int_codes)
  have range: "(status_check rnd = Inl IndexError) = (5 \<le> rnd)"
  proof (cases "rnd < 5")
    case True
    with below_5 [OF True] show ?thesis by (auto simp add: status_check_values)
  next
    case False
    then show ?thesis by (simp add: status_check_out_of_range)
  qed
  have p200: "prob 5 (\<lambda>i. status_check i
        = Inr (client_get ''/status/200'' ''GET /status/200'' 30)) = 3 / 5"
    by (simp add: prob_def upt_5 status_check_values client_get_def)
  have p404: "prob 5 (\<lambda>i. status_check i
        = Inr (client_get ''/status/404'' ''GET /status/404'' 30)) = 1 / 5"
    by (simp add: prob_def upt_5 status_check_values client_get_def)
  have p500: "prob 5 (\<lambda>i. status_check i
        = Inr (client_get ''/status/500'' ''GET /status/500'' 30)) = 1 / 5"
    by (simp add: prob_def upt_5 status_check_values client_get_def)
  from codes range p200 p404 p500 show ?thesis by blast
qed

theorem status_check_distribution_witness:
  "(3::nat) < 5
   \<and> (\<exists>code\<in>{200, 404, 500}.
       status_check 3
         = Inr (client_get (''/status/'' @ str_int code) (''GET /status/'' @ str_int code) 30))
   \<and> status_check 3 = Inr (client_get ''/status/404'' ''GET /status/404'' 30)"
proof -
  have lt: "(3::nat) < 5" by simp
  from status_check_distribution [of 0] lt
  have "\<exists>code\<in>{200, 404, 500}.
       status_check 3
         = Inr (client_get (''/status/'' @ str_int code) (''GET /status/'' @ str_int code) 30)"
    by blast
  then show ?thesis by (simp add: status_check_values)
qed

text \<open>
  C9. Every request the delayed task issues has a path \<open>/delay/d\<close> with \<open>d\<close> one of 1,
  2, 3, the value drawn from the candidate list, whatever index the generator draws;
  and for each index the generator can draw (0, 1 or 2) a request is issued.
\<close>

theorem delayed_path_in_range:
  "(\<forall>req. delayed rnd = Inr req \<longrightarrow>
      (\<exists>delay\<in>{1, 2, 3}.
         choice [1, 2, 3] rnd = Inr delay
         \<and> path req = ''/delay/'' @ str_int delay
         \<and> name req = ''GET /delay/'' @ str_int delay)
      \<and> path req \<in> {''/delay/1'', ''/delay/2'', ''/delay/3''})
   \<and> (rnd < 3 \<longrightarrow> (\<exists>req. delayed rnd = Inr req))"
proof (cases "rnd < 3")
  case True
  from below_3 [OF True] show ?thesis
    by (auto simp add: delayed_values choice_def client_get_def str_int_delays)
next
  case False
  then show ?thesis by (simp add: delayed_out_of_range)
qed

theorem delayed_path_in_range_witness:
  "(1::nat) < 3
   \<and> delayed 1 = Inr (client_get ''/delay/2'' ''GET /delay/2'' 60)
   \<and> path (client_get ''/delay/2'' ''GET /delay/2'' 60)
       \<in> {''/delay/1'', ''/delay/2'', ''/delay/3''}"
proof -
  have lt: "(1::nat) < 3" by simp
  have req: "delayed 1 = Inr (client_get ''/delay/2'' ''GET /delay/2'' 60)"
    by (simp add: delayed_values)
  from delayed_path_in_range [of 1] req
  have "path (client_get ''/delay/2'' ''GET /delay/2'' 60)
       \<in> {''/delay/1'', ''/delay/2'', ''/delay/3''}"
    by blast
  with lt req show ?thesis by simp
qed


section \<open>The test_stop listener without a runner\<close>

text \<open>
  C3. The claim has the listener print its first line and return when the runner is
  \<open>None\<close>. The source reads \<open>environment.runner.stats\<close> before it tests
  \<open>environment.runner\<close>, so after the first line the call ends in \<open>AttributeError\<close>; the
  guard that would have skipped the statistics is never reached.
\<close>

theorem on_test_stop_without_runner:
  "on_test_stop str_float \<lparr>runner = None\<rparr>
     = ([''Test finished. Summary:''], Inl AttributeError)"
  by (simp add: on_test_stop_def getattr_stats_def)

end
